theory Spec2Isabelle
  imports Main "HOL-Library.AList"
begin

unbundle bit_operations_syntax

section \<open>Data model of the bytecode interpreter (vm.py)\<close>

text \<open>
  Python objects with identity (environment dictionaries, function objects, exception
  instances) live at an address. The environment dictionaries of a Frame (builtins,
  globals, locals) are mutable and may be shared between Frames, so they are kept in an
  explicit store and a Frame holds their addresses.
\<close>

type_synonym ref = nat

text \<open>
  The runtime values the model covers: \<open>None\<close>, integers, strings, tuples, lists,
  dictionaries (insertion-ordered association lists), exception classes, exception
  instances, traceback objects, code objects and the functions built by
  \<open>make_function_op\<close>. The exception classes covered are those that use the
  constructor of \<open>BaseException\<close> as it is (\<open>ValueError\<close>, \<open>KeyError\<close>,
  \<open>TypeError\<close> and the like), not classes with a constructor of their own such as
  \<open>OSError\<close> or \<open>UnicodeDecodeError\<close>. A function
  value records what the closure \<open>f\<close> of \<open>make_function_op\<close> captures: its own
  address, the qualified name, the value popped as code, the list of defaults, and the
  defining Frame, through the addresses of its locals, globals and builtins (the
  attributes \<open>self.locals\<close>, \<open>self.globals\<close>, \<open>self.builtins\<close> are assigned once,
  in \<open>Frame.__init__\<close>).

  Instruction arguments are the \<open>argval\<close> of \<open>dis\<close>: counts and jump targets
  are natural numbers, jump targets are byte offsets (two per instruction).
\<close>

datatype val =
    VNone
  | VInt int
  | VStr string
  | VTuple "val list"
  | VList "val list"
  | VDict "(val \<times> val) list"
  | VExcType string
  | VExcInst ref string "val list"
  | VTraceback ref
  | VCode code
  | VFunc ref string val "val list" ref ref ref
and code =
    Code (co_instrs: "instr list") (co_varnames: "string list") (co_argcount: nat)
         (co_posonlyargcount: nat) (co_kwonlyargcount: nat) (co_flags: nat)
and instr =
    NOP
  | LOAD_CONST val
  | LOAD_NAME string
  | LOAD_GLOBAL string
  | STORE_NAME string
  | STORE_GLOBAL string
  | STORE_FAST string
  | DELETE_NAME string
  | DELETE_FAST string
  | POP_TOP
  | DUP_TOP
  | ROT_TWO
  | RETURN_VALUE
  | POP_JUMP_IF_TRUE nat
  | POP_JUMP_IF_FALSE nat
  | JUMP_IF_TRUE_OR_POP nat
  | JUMP_IF_FALSE_OR_POP nat
  | JUMP_FORWARD nat
  | JUMP_ABSOLUTE nat
  | BUILD_TUPLE nat
  | BUILD_LIST nat
  | BUILD_MAP nat
  | RAISE_VARARGS nat
  | MAKE_FUNCTION nat
  | CALL_FUNCTION nat

datatype error =
    IndexError
  | KeyError
  | NameError
  | UnboundLocalError
  | TypeError
  | AttributeError
  | ValueError

type_synonym dict = "(string \<times> val) list"

record heap =
  cells :: "ref \<Rightarrow> dict"
  fresh :: ref

definition alloc :: "dict \<Rightarrow> heap \<Rightarrow> ref \<times> heap" where
  "alloc d h = (fresh h, h\<lparr>cells := (cells h)(fresh h := d), fresh := Suc (fresh h)\<rparr>)"

definition set_cell :: "ref \<Rightarrow> dict \<Rightarrow> heap \<Rightarrow> heap" where
  "set_cell r d h = h\<lparr>cells := (cells h)(r := d)\<rparr>"

record frame =
  code :: code
  builtins :: ref
  globals :: ref
  locals :: ref
  data_stack :: "val list"
  return_value :: val
  counter :: nat
  last_exception :: "val list"
  jump :: "nat option"
  bytecode_len :: nat
  load_comprehension :: bool

text \<open>\<open>Frame.__init__\<close>.\<close>

definition Frame :: "code \<Rightarrow> ref \<Rightarrow> ref \<Rightarrow> ref \<Rightarrow> frame" where
  "Frame frame_code frame_builtins frame_globals frame_locals =
     \<lparr>code = frame_code, builtins = frame_builtins, globals = frame_globals,
      locals = frame_locals, data_stack = [], return_value = VNone, counter = 0,
      last_exception = [], jump = None, bytecode_len = 0, load_comprehension = False\<rparr>"

section \<open>The operand stack\<close>

text \<open>The stack is the Python list \<open>data_stack\<close>: its top is the last element.\<close>

definition top :: "frame \<Rightarrow> error + val" where
  "top fr = (if data_stack fr = [] then Inl IndexError else Inr (last (data_stack fr)))"

definition pop :: "frame \<Rightarrow> error + val \<times> frame" where
  "pop fr =
     (if data_stack fr = [] then Inl IndexError
      else Inr (last (data_stack fr), fr\<lparr>data_stack := butlast (data_stack fr)\<rparr>))"

definition push :: "val list \<Rightarrow> frame \<Rightarrow> frame" where
  "push values fr = fr\<lparr>data_stack := data_stack fr @ values\<rparr>"

text \<open>
  \<open>popn\<close>: for \<open>n > 0\<close> the slice \<open>data_stack[-n:]\<close> starts at
  \<open>max (len - n) 0\<close> (a slice never raises), and the same slice is deleted.
\<close>

definition popn :: "int \<Rightarrow> frame \<Rightarrow> val list \<times> frame" where
  "popn n fr =
     (if n > 0
      then (let k = length (data_stack fr) - nat n
            in (drop k (data_stack fr), fr\<lparr>data_stack := take k (data_stack fr)\<rparr>))
      else ([], fr))"

text \<open>\<open>k\<close> successive calls of \<open>pop\<close>, collecting the results in call order.\<close>

fun pop_seq :: "nat \<Rightarrow> frame \<Rightarrow> error + val list \<times> frame" where
  "pop_seq 0 fr = Inr ([], fr)"
| "pop_seq (Suc k) fr =
     (case pop fr of
        Inl e \<Rightarrow> Inl e
      | Inr (v, fr') \<Rightarrow>
          (case pop_seq k fr' of
             Inl e \<Rightarrow> Inl e
           | Inr (vs, fr'') \<Rightarrow> Inr (v # vs, fr'')))"

section \<open>Python primitives used by the handlers\<close>

text \<open>
  Truth value of an object (\<open>if x:\<close>). Exception classes and instances,
  tracebacks, code objects and functions define neither \<open>__bool__\<close> nor
  \<open>__len__\<close> and are true.
\<close>

fun truthy :: "val \<Rightarrow> bool" where
  "truthy VNone = False"
| "truthy (VInt i) = (i \<noteq> 0)"
| "truthy (VStr s) = (s \<noteq> [])"
| "truthy (VTuple xs) = (xs \<noteq> [])"
| "truthy (VList xs) = (xs \<noteq> [])"
| "truthy (VDict d) = (d \<noteq> [])"
| "truthy (VExcType n) = True"
| "truthy (VExcInst a n args) = True"
| "truthy (VTraceback a) = True"
| "truthy (VCode c) = True"
| "truthy (VFunc a n c ds l g b) = True"

text \<open>
  Whether an object can be a dictionary key: lists and dictionaries cannot, a tuple can
  when all its elements can. On the values that can, the equality of keys is the
  equality of the model (objects compared by identity carry their address).
\<close>

fun hashable :: "val \<Rightarrow> bool" where
  "hashable (VTuple xs) = list_all hashable xs"
| "hashable (VList xs) = False"
| "hashable (VDict d) = False"
| "hashable v = True"

text \<open>\<open>isinstance(x, BaseException)\<close> and, for such an \<open>x\<close>, \<open>type(x)\<close>.\<close>

fun is_exception_instance :: "val \<Rightarrow> bool" where
  "is_exception_instance (VExcInst a n args) = True"
| "is_exception_instance v = False"

fun type_of_exception :: "val \<Rightarrow> val" where
  "type_of_exception (VExcInst a n args) = VExcType n"
| "type_of_exception v = v"

text \<open>
  \<open>xs[start:stop]\<close> with step 1: an absent bound is the end of the list, a negative
  bound counts from the end, and both are clamped to the list.
\<close>

definition slice_bound :: "nat \<Rightarrow> int \<Rightarrow> nat" where
  "slice_bound n i = (if i < 0 then nat (max (int n + i) 0) else min (nat i) n)"

definition slice :: "int option \<Rightarrow> int option \<Rightarrow> 'a list \<Rightarrow> 'a list" where
  "slice start stop xs =
     (let lo = (case start of None \<Rightarrow> 0 | Some i \<Rightarrow> slice_bound (length xs) i);
          hi = (case stop of None \<Rightarrow> length xs | Some i \<Rightarrow> slice_bound (length xs) i)
      in take (hi - lo) (drop lo xs))"

text \<open>
  Dictionaries keep insertion order; storing under a key already present replaces the
  value in place (\<open>AList.update\<close>). \<open>dict_update d e\<close> is \<open>d.update(e)\<close>,
  \<open>dict_zip ks vs\<close> is \<open>dict(zip(ks, vs))\<close>, \<open>dict_delitem k d\<close> is
  \<open>del d[k]\<close>.
\<close>

definition dict_update :: "('k \<times> 'v) list \<Rightarrow> ('k \<times> 'v) list \<Rightarrow> ('k \<times> 'v) list" where
  "dict_update d e = fold (\<lambda>(k, v). AList.update k v) e d"

definition dict_zip :: "'k list \<Rightarrow> 'v list \<Rightarrow> ('k \<times> 'v) list" where
  "dict_zip ks vs = dict_update [] (zip ks vs)"

definition dict_delitem :: "'k \<Rightarrow> ('k \<times> 'v) list \<Rightarrow> error + ('k \<times> 'v) list" where
  "dict_delitem k d = (if k \<in> fst ` set d then Inr (AList.delete k d) else Inl KeyError)"

section \<open>Opcode handlers\<close>

text \<open>
  A handler takes the Frame (and the store when it touches an environment) and yields
  an error, for the Python exception it raises, or the updated state. Handlers without a
  \<open>return\<close> statement return \<open>None\<close>; only \<open>raise_varargs_op\<close> returns a value
  of its own.
\<close>

definition nop_op :: "frame \<Rightarrow> error + frame" where
  "nop_op fr = Inr fr"

definition load_name_op :: "string \<Rightarrow> heap \<Rightarrow> frame \<Rightarrow> error + frame" where
  "load_name_op arg h fr =
     (case map_of (cells h (locals fr)) arg of
        Some v \<Rightarrow> Inr (push [v] fr)
      | None \<Rightarrow>
          (case map_of (cells h (globals fr)) arg of
             Some v \<Rightarrow> Inr (push [v] fr)
           | None \<Rightarrow>
               (case map_of (cells h (builtins fr)) arg of
                  Some v \<Rightarrow> Inr (push [v] fr)
                | None \<Rightarrow> Inl NameError)))"

definition load_global_op :: "string \<Rightarrow> heap \<Rightarrow> frame \<Rightarrow> error + frame" where
  "load_global_op arg h fr =
     (case map_of (cells h (globals fr)) arg of
        Some v \<Rightarrow> Inr (push [v] fr)
      | None \<Rightarrow>
          (case map_of (cells h (builtins fr)) arg of
             Some v \<Rightarrow> Inr (push [v] fr)
           | None \<Rightarrow> Inl NameError))"

definition load_const_op :: "val \<Rightarrow> frame \<Rightarrow> error + frame" where
  "load_const_op arg fr = Inr (push [arg] fr)"

definition store_name_op :: "string \<Rightarrow> heap \<Rightarrow> frame \<Rightarrow> error + heap \<times> frame" where
  "store_name_op arg h fr =
     (case pop fr of
        Inl e \<Rightarrow> Inl e
      | Inr (const, fr') \<Rightarrow>
          Inr (set_cell (locals fr') (AList.update arg const (cells h (locals fr'))) h, fr'))"

definition store_fast_op :: "string \<Rightarrow> heap \<Rightarrow> frame \<Rightarrow> error + heap \<times> frame" where
  "store_fast_op arg h fr =
     (case pop fr of
        Inl e \<Rightarrow> Inl e
      | Inr (v, fr') \<Rightarrow>
          Inr (set_cell (locals fr') (AList.update arg v (cells h (locals fr'))) h, fr'))"

definition store_global_op :: "string \<Rightarrow> heap \<Rightarrow> frame \<Rightarrow> error + heap \<times> frame" where
  "store_global_op arg h fr =
     (case pop fr of
        Inl e \<Rightarrow> Inl e
      | Inr (v, fr') \<Rightarrow>
          Inr (set_cell (globals fr') (AList.update arg v (cells h (globals fr'))) h, fr'))"

definition delete_name_op :: "string \<Rightarrow> heap \<Rightarrow> frame \<Rightarrow> error + heap \<times> frame" where
  "delete_name_op namei h fr =
     (case dict_delitem namei (cells h (globals fr)) of
        Inl e \<Rightarrow> Inl e
      | Inr d \<Rightarrow> Inr (set_cell (globals fr) d h, fr))"

definition delete_fast_op :: "string \<Rightarrow> heap \<Rightarrow> frame \<Rightarrow> error + heap \<times> frame" where
  "delete_fast_op namei h fr =
     (case dict_delitem namei (cells h (locals fr)) of
        Inl e \<Rightarrow> Inl e
      | Inr d \<Rightarrow> Inr (set_cell (locals fr) d h, fr))"

definition pop_top_op :: "frame \<Rightarrow> error + frame" where
  "pop_top_op fr = (case pop fr of Inl e \<Rightarrow> Inl e | Inr (v, fr') \<Rightarrow> Inr fr')"

definition dup_top_op :: "frame \<Rightarrow> error + frame" where
  "dup_top_op fr = (case top fr of Inl e \<Rightarrow> Inl e | Inr v \<Rightarrow> Inr (push [v] fr))"

definition rot_two_op :: "frame \<Rightarrow> error + frame" where
  "rot_two_op fr = (case popn 2 fr of (vs, fr') \<Rightarrow> Inr (push (rev vs) fr'))"

definition return_value_op :: "frame \<Rightarrow> error + frame" where
  "return_value_op fr =
     (case pop fr of
        Inl e \<Rightarrow> Inl e
      | Inr (v, fr') \<Rightarrow> Inr (fr'\<lparr>return_value := v, counter := bytecode_len fr'\<rparr>))"

definition pop_jump_if_true_op :: "nat \<Rightarrow> frame \<Rightarrow> error + frame" where
  "pop_jump_if_true_op target fr =
     (case pop fr of
        Inl e \<Rightarrow> Inl e
      | Inr (v, fr') \<Rightarrow> Inr (if truthy v then fr'\<lparr>jump := Some target\<rparr> else fr'))"

definition pop_jump_if_false_op :: "nat \<Rightarrow> frame \<Rightarrow> error + frame" where
  "pop_jump_if_false_op target fr =
     (case pop fr of
        Inl e \<Rightarrow> Inl e
      | Inr (v, fr') \<Rightarrow> Inr (if \<not> truthy v then fr'\<lparr>jump := Some target\<rparr> else fr'))"

definition jump_if_true_or_pop_op :: "nat \<Rightarrow> frame \<Rightarrow> error + frame" where
  "jump_if_true_or_pop_op target fr =
     (case top fr of
        Inl e \<Rightarrow> Inl e
      | Inr v \<Rightarrow>
          if truthy v then Inr (fr\<lparr>jump := Some target\<rparr>)
          else (case pop fr of Inl e \<Rightarrow> Inl e | Inr (w, fr') \<Rightarrow> Inr fr'))"

definition jump_if_false_or_pop_op :: "nat \<Rightarrow> frame \<Rightarrow> error + frame" where
  "jump_if_false_or_pop_op target fr =
     (case top fr of
        Inl e \<Rightarrow> Inl e
      | Inr v \<Rightarrow>
          if \<not> truthy v then Inr (fr\<lparr>jump := Some target\<rparr>)
          else (case pop fr of Inl e \<Rightarrow> Inl e | Inr (w, fr') \<Rightarrow> Inr fr'))"

definition jump_forward_op :: "nat \<Rightarrow> frame \<Rightarrow> error + frame" where
  "jump_forward_op delta fr = Inr (fr\<lparr>jump := Some delta\<rparr>)"

definition jump_absolute_op :: "nat \<Rightarrow> frame \<Rightarrow> error + frame" where
  "jump_absolute_op target fr = Inr (fr\<lparr>jump := Some target\<rparr>)"

definition build_tuple_op :: "nat \<Rightarrow> frame \<Rightarrow> error + frame" where
  "build_tuple_op count fr = (case popn (int count) fr of (vs, fr') \<Rightarrow> Inr (push [VTuple vs] fr'))"

definition build_list_op :: "nat \<Rightarrow> frame \<Rightarrow> error + frame" where
  "build_list_op count fr = (case popn (int count) fr of (vs, fr') \<Rightarrow> Inr (push [VList vs] fr'))"

text \<open>
  The dictionary comprehension of \<open>build_map_op\<close>,
  \<open>{toses[i]: toses[i + 1] for i in range(2 * count - 1)}\<close>: for each \<open>i\<close> of the
  range, in order, the key \<open>toses[i]\<close> and the value \<open>toses[i + 1]\<close> are read
  (IndexError out of range) and stored (TypeError for an unhashable key).
\<close>

fun build_map_items :: "val list \<Rightarrow> nat list \<Rightarrow> (val \<times> val) list \<Rightarrow> error + (val \<times> val) list" where
  "build_map_items toses [] d = Inr d"
| "build_map_items toses (i # rest) d =
     (if i < length toses \<and> i + 1 < length toses
      then (if hashable (toses ! i)
            then build_map_items toses rest (AList.update (toses ! i) (toses ! (i + 1)) d)
            else Inl TypeError)
      else Inl IndexError)"

definition build_map_op :: "nat \<Rightarrow> frame \<Rightarrow> error + frame" where
  "build_map_op count fr =
     (case popn (2 * int count) fr of
        (toses, fr') \<Rightarrow>
          (case build_map_items toses [0 ..< 2 * count - 1] [] of
             Inl e \<Rightarrow> Inl e
           | Inr d \<Rightarrow> Inr (push [VDict d] fr')))"

text \<open>
  \<open>raise_varargs_op\<close>. The first component of \<open>raise_operands\<close> is the Frame after
  the pops, the second the list \<open>[exctype, val, tb]\<close> before normalisation. With no
  operand the three values are unpacked from \<open>last_exception\<close>, which raises
  ValueError unless it holds exactly three.
\<close>

definition raise_operands :: "nat \<Rightarrow> frame \<Rightarrow> error + frame \<times> val \<times> val \<times> val" where
  "raise_operands argc fr =
     (if argc = 0 then
        (case last_exception fr of
           [exctype, val, tb] \<Rightarrow> Inr (fr, exctype, val, tb)
         | _ \<Rightarrow> Inl ValueError)
      else if argc = 1 then
        (case pop fr of
           Inl e \<Rightarrow> Inl e
         | Inr (exctype, fr1) \<Rightarrow> Inr (fr1, exctype, VNone, VNone))
      else if argc = 2 then
        (case pop fr of
           Inl e \<Rightarrow> Inl e
         | Inr (val, fr1) \<Rightarrow>
             (case pop fr1 of
                Inl e \<Rightarrow> Inl e
              | Inr (exctype, fr2) \<Rightarrow> Inr (fr2, exctype, val, VNone)))
      else if argc = 3 then
        (case pop fr of
           Inl e \<Rightarrow> Inl e
         | Inr (tb, fr1) \<Rightarrow>
             (case pop fr1 of
                Inl e \<Rightarrow> Inl e
              | Inr (val, fr2) \<Rightarrow>
                  (case pop fr2 of
                     Inl e \<Rightarrow> Inl e
                   | Inr (exctype, fr3) \<Rightarrow> Inr (fr3, exctype, val, tb))))
      else Inr (fr, VNone, VNone, VNone))"

definition raise_varargs_op :: "nat \<Rightarrow> frame \<Rightarrow> error + val \<times> frame" where
  "raise_varargs_op argc fr =
     (case raise_operands argc fr of
        Inl e \<Rightarrow> Inl e
      | Inr (fr', exctype, val, tb) \<Rightarrow>
          (let val' = (if is_exception_instance exctype then exctype else val);
               exctype' = (if is_exception_instance exctype then type_of_exception exctype
                           else exctype);
               fr'' = fr'\<lparr>last_exception := [exctype', val', tb]\<rparr>
           in if truthy tb then Inr (VStr ''reraise'', fr'')
              else Inr (VStr ''exception'', fr'')))"

section \<open>Function construction and parameter binding\<close>

definition CO_VARARGS :: nat where
  "CO_VARARGS = 4"

definition CO_VARKEYWORDS :: nat where
  "CO_VARKEYWORDS = 8"

definition has_varargs :: "code \<Rightarrow> bool" where
  "has_varargs c = (co_flags c AND CO_VARARGS \<noteq> 0)"

definition has_varkwargs :: "code \<Rightarrow> bool" where
  "has_varkwargs c = (co_flags c AND CO_VARKEYWORDS \<noteq> 0)"

text \<open>
  \<open>make_function_op\<close>: pops the name and the code, then \<open>arg\<close> values as
  defaults, and pushes the closure. Assigning \<open>f.__qualname__\<close> raises TypeError
  unless the name is a string.
\<close>

definition make_function_op :: "nat \<Rightarrow> heap \<Rightarrow> frame \<Rightarrow> error + heap \<times> frame" where
  "make_function_op arg h fr =
     (case pop fr of
        Inl e \<Rightarrow> Inl e
      | Inr (name, fr1) \<Rightarrow>
          (case pop fr1 of
             Inl e \<Rightarrow> Inl e
           | Inr (cd, fr2) \<Rightarrow>
               (case popn (int arg) fr2 of
                  (defaults, fr3) \<Rightarrow>
                    (case name of
                       VStr qualname \<Rightarrow>
                         (case alloc [] h of
                            (a, h') \<Rightarrow>
                              Inr (h', push [VFunc a qualname cd defaults
                                               (locals fr3) (globals fr3) (builtins fr3)] fr3))
                     | _ \<Rightarrow> Inl TypeError))))"

text \<open>
  The names paired with the defaults:
  \<open>co_varnames[co_kwonlyargcount - len(defaults) : co_argcount]\<close>.
\<close>

definition defaults_names :: "code \<Rightarrow> val list \<Rightarrow> string list" where
  "defaults_names c defaults =
     slice (Some (int (co_kwonlyargcount c) - int (length defaults)))
           (Some (int (co_argcount c))) (co_varnames c)"

definition posonly_names :: "code \<Rightarrow> string list" where
  "posonly_names c = slice None (Some (int (co_posonlyargcount c))) (co_varnames c)"

definition pos_or_kw_names :: "code \<Rightarrow> string list" where
  "pos_or_kw_names c =
     slice (Some (int (co_posonlyargcount c))) (Some (int (co_argcount c))) (co_varnames c)"

definition kwonly_names :: "code \<Rightarrow> string list" where
  "kwonly_names c =
     slice (Some (int (co_argcount c)))
           (Some (int (co_argcount c) + int (co_kwonlyargcount c))) (co_varnames c)"

text \<open>
  The loop over \<open>kwargs.items()\<close>: the accumulator holds \<open>parsed_kwargs\<close>,
  \<open>parsed_kwonlyargs\<close> and \<open>varkwargs\<close>.
\<close>

fun split_kwargs :: "code \<Rightarrow> dict \<Rightarrow> dict \<times> dict \<times> dict \<Rightarrow> dict \<times> dict \<times> dict" where
  "split_kwargs c [] acc = acc"
| "split_kwargs c ((k, v) # rest) (parsed_kwargs, parsed_kwonlyargs, varkwargs) =
     (if k \<in> set (pos_or_kw_names c)
      then split_kwargs c rest (AList.update k v parsed_kwargs, parsed_kwonlyargs, varkwargs)
      else if k \<in> set (kwonly_names c)
      then split_kwargs c rest (parsed_kwargs, AList.update k v parsed_kwonlyargs, varkwargs)
      else split_kwargs c rest (parsed_kwargs, parsed_kwonlyargs, AList.update k v varkwargs))"

text \<open>\<open>co_varnames[i]\<close> for \<open>i \<ge> 0\<close>.\<close>

definition varname_at :: "code \<Rightarrow> nat \<Rightarrow> error + string" where
  "varname_at c i = (if i < length (co_varnames c) then Inr (co_varnames c ! i) else Inl IndexError)"

text \<open>
  The bindings before the varargs and varkwargs slots are set: the defaults, updated
  with \<open>{**parsed_posonlyargs, **parsed_posargs, **parsed_kwargs, **parsed_kwonlyargs}\<close>.
\<close>

definition named_args :: "code \<Rightarrow> val list \<Rightarrow> val list \<Rightarrow> dict \<Rightarrow> dict" where
  "named_args c defaults args kwargs =
     (let default = dict_zip (defaults_names c defaults) defaults;
          parsed_posonlyargs =
            dict_zip (posonly_names c) (slice None (Some (int (co_posonlyargcount c))) args);
          parsed_posargs =
            dict_zip (pos_or_kw_names c)
              (slice (Some (int (co_posonlyargcount c))) (Some (int (co_argcount c))) args)
      in case split_kwargs c kwargs ([], [], []) of
           (parsed_kwargs, parsed_kwonlyargs, varkwargs) \<Rightarrow>
             dict_update default
               (dict_update (dict_update (dict_update (dict_update [] parsed_posonlyargs)
                  parsed_posargs) parsed_kwargs) parsed_kwonlyargs))"

text \<open>
  \<open>parsed_args\<close> as the closure \<open>f\<close> computes it from \<open>args\<close> and \<open>kwargs\<close>,
  with the varargs tuple and the varkwargs dictionary stored when the flags say so.
\<close>

definition parsed_args :: "code \<Rightarrow> val list \<Rightarrow> val list \<Rightarrow> dict \<Rightarrow> error + dict" where
  "parsed_args c defaults args kwargs =
     (let varargs = slice (Some (int (co_argcount c))) None args;
          varkwargs = snd (snd (split_kwargs c kwargs ([], [], [])));
          pa = named_args c defaults args kwargs
      in case (if has_varargs c
               then (case varname_at c (co_argcount c + co_kwonlyargcount c) of
                       Inl e \<Rightarrow> Inl e
                     | Inr varargs_name \<Rightarrow> Inr (AList.update varargs_name (VTuple varargs) pa))
               else Inr pa) of
           Inl e \<Rightarrow> Inl e
         | Inr pa1 \<Rightarrow>
             (if has_varkwargs c
              then (case varname_at c (co_argcount c + co_kwonlyargcount c
                                        + (if has_varargs c then 1 else 0)) of
                      Inl e \<Rightarrow> Inl e
                    | Inr varkwargs_name \<Rightarrow>
                        Inr (AList.update varkwargs_name
                               (VDict (map (\<lambda>(k, v). (VStr k, v)) varkwargs)) pa1))
              else Inr pa1))"

text \<open>
  The locals of the Frame an invocation creates: \<open>f_locals = dict(self.locals)\<close>,
  read from the defining Frame when \<open>f\<close> is called, then
  \<open>f_locals.update(parsed_args)\<close>.
\<close>

definition f_locals :: "heap \<Rightarrow> ref \<Rightarrow> dict \<Rightarrow> dict" where
  "f_locals h defining_locals pa = dict_update (cells h defining_locals) pa"

section \<open>Calls and the execution loop\<close>

text \<open>
  The Frame the closure \<open>f\<close> of \<open>make_function_op\<close> builds when it is called
  with \<open>args\<close> and \<open>kwargs\<close>: it reads the attributes of its code (AttributeError
  when the popped value is no code object), binds the arguments and creates the Frame on
  a new locals dictionary, sharing globals and builtins with the defining Frame.
\<close>

definition function_frame ::
  "heap \<Rightarrow> val \<Rightarrow> val list \<Rightarrow> ref \<Rightarrow> ref \<Rightarrow> ref \<Rightarrow> val list \<Rightarrow> dict \<Rightarrow> error + frame \<times> heap" where
  "function_frame h cd defaults lref gref bref args kwargs =
     (case cd of
        VCode c \<Rightarrow>
          (case parsed_args c defaults args kwargs of
             Inl e \<Rightarrow> Inl e
           | Inr pa \<Rightarrow>
               (case alloc (f_locals h lref pa) h of
                  (r, h') \<Rightarrow> Inr (Frame c bref gref r, h')))
      | _ \<Rightarrow> Inl AttributeError)"

text \<open>
  The result of running a Frame: \<open>None\<close> when the fuel runs out, otherwise the error
  raised or the value returned, with the store.

  \<open>call_value run h f args kwargs\<close> is the call \<open>f(*args, **kwargs)\<close>; \<open>run\<close>
  is \<open>Frame.run\<close>. A function built by \<open>make_function_op\<close> runs its new Frame.
  An exception class (of those the model covers, see \<open>val\<close>) is instantiated with
  \<open>BaseException\<close>'s constructor, which takes any positional arguments and no
  keyword argument. No other value of the model is callable.
\<close>

definition call_value ::
  "(heap \<Rightarrow> frame \<Rightarrow> (error + val \<times> heap) option) \<Rightarrow> heap \<Rightarrow> val \<Rightarrow> val list \<Rightarrow> dict
     \<Rightarrow> (error + val \<times> heap) option" where
  "call_value run h f args kwargs =
     (case f of
        VFunc a qualname cd defaults lref gref bref \<Rightarrow>
          (case function_frame h cd defaults lref gref bref args kwargs of
             Inl e \<Rightarrow> Some (Inl e)
           | Inr (fr, h') \<Rightarrow> run h' fr)
      | VExcType n \<Rightarrow>
          (if kwargs = []
           then (case alloc [] h of (a, h') \<Rightarrow> Some (Inr (VExcInst a n args, h')))
           else Some (Inl TypeError))
      | _ \<Rightarrow> Some (Inl TypeError))"

definition call_function_op ::
  "(heap \<Rightarrow> frame \<Rightarrow> (error + val \<times> heap) option) \<Rightarrow> nat \<Rightarrow> heap \<Rightarrow> frame
     \<Rightarrow> (error + heap \<times> frame) option" where
  "call_function_op run arg h fr =
     (case popn (int arg) fr of
        (arguments, fr1) \<Rightarrow>
          (case pop fr1 of
             Inl e \<Rightarrow> Some (Inl e)
           | Inr (f, fr2) \<Rightarrow>
               (case call_value run h f arguments [] of
                  None \<Rightarrow> None
                | Some (Inl e) \<Rightarrow> Some (Inl e)
                | Some (Inr (v, h')) \<Rightarrow> Some (Inr (h', push [v] fr2)))))"

text \<open>
  Dispatch by opcode name. The result carries the value the handler returns, the store
  and the Frame.
\<close>

definition on_frame :: "heap \<Rightarrow> error + frame \<Rightarrow> (error + val \<times> heap \<times> frame) option" where
  "on_frame h r = (case r of Inl e \<Rightarrow> Some (Inl e) | Inr fr \<Rightarrow> Some (Inr (VNone, h, fr)))"

definition on_state :: "error + heap \<times> frame \<Rightarrow> (error + val \<times> heap \<times> frame) option" where
  "on_state r = (case r of Inl e \<Rightarrow> Some (Inl e) | Inr (h, fr) \<Rightarrow> Some (Inr (VNone, h, fr)))"

fun dispatch ::
  "(heap \<Rightarrow> frame \<Rightarrow> (error + val \<times> heap) option) \<Rightarrow> instr \<Rightarrow> heap \<Rightarrow> frame
     \<Rightarrow> (error + val \<times> heap \<times> frame) option" where
  "dispatch run NOP h fr = on_frame h (nop_op fr)"
| "dispatch run (LOAD_CONST v) h fr = on_frame h (load_const_op v fr)"
| "dispatch run (LOAD_NAME n) h fr = on_frame h (load_name_op n h fr)"
| "dispatch run (LOAD_GLOBAL n) h fr = on_frame h (load_global_op n h fr)"
| "dispatch run (STORE_NAME n) h fr = on_state (store_name_op n h fr)"
| "dispatch run (STORE_GLOBAL n) h fr = on_state (store_global_op n h fr)"
| "dispatch run (STORE_FAST n) h fr = on_state (store_fast_op n h fr)"
| "dispatch run (DELETE_NAME n) h fr = on_state (delete_name_op n h fr)"
| "dispatch run (DELETE_FAST n) h fr = on_state (delete_fast_op n h fr)"
| "dispatch run POP_TOP h fr = on_frame h (pop_top_op fr)"
| "dispatch run DUP_TOP h fr = on_frame h (dup_top_op fr)"
| "dispatch run ROT_TWO h fr = on_frame h (rot_two_op fr)"
| "dispatch run RETURN_VALUE h fr = on_frame h (return_value_op fr)"
| "dispatch run (POP_JUMP_IF_TRUE t) h fr = on_frame h (pop_jump_if_true_op t fr)"
| "dispatch run (POP_JUMP_IF_FALSE t) h fr = on_frame h (pop_jump_if_false_op t fr)"
| "dispatch run (JUMP_IF_TRUE_OR_POP t) h fr = on_frame h (jump_if_true_or_pop_op t fr)"
| "dispatch run (JUMP_IF_FALSE_OR_POP t) h fr = on_frame h (jump_if_false_or_pop_op t fr)"
| "dispatch run (JUMP_FORWARD t) h fr = on_frame h (jump_forward_op t fr)"
| "dispatch run (JUMP_ABSOLUTE t) h fr = on_frame h (jump_absolute_op t fr)"
| "dispatch run (BUILD_TUPLE n) h fr = on_frame h (build_tuple_op n fr)"
| "dispatch run (BUILD_LIST n) h fr = on_frame h (build_list_op n fr)"
| "dispatch run (BUILD_MAP n) h fr = on_frame h (build_map_op n fr)"
| "dispatch run (RAISE_VARARGS n) h fr =
     (case raise_varargs_op n fr of
        Inl e \<Rightarrow> Some (Inl e)
      | Inr (ret, fr') \<Rightarrow> Some (Inr (ret, h, fr')))"
| "dispatch run (MAKE_FUNCTION n) h fr = on_state (make_function_op n h fr)"
| "dispatch run (CALL_FUNCTION n) h fr =
     (case call_function_op run n h fr of
        None \<Rightarrow> None
      | Some r \<Rightarrow> on_state r)"

text \<open>
  After a handler the loop moves the instruction pointer: to the pending jump, which it
  clears, or two bytes on.
\<close>

definition advance :: "frame \<Rightarrow> frame" where
  "advance fr =
     (case jump fr of
        Some t \<Rightarrow> fr\<lparr>counter := t, jump := None\<rparr>
      | None \<Rightarrow> fr\<lparr>counter := counter fr + 2\<rparr>)"

text \<open>What \<open>Frame.run\<close> sets before its loop.\<close>

definition start :: "frame \<Rightarrow> frame" where
  "start fr = fr\<lparr>bytecode_len := 2 * length (co_instrs (code fr)), counter := 0\<rparr>"

text \<open>
  The \<open>while\<close> loop of \<open>Frame.run\<close>, one unit of fuel for each iteration; a nested
  call runs its Frame on what is left.
\<close>

primrec exec :: "nat \<Rightarrow> heap \<Rightarrow> frame \<Rightarrow> (error + val \<times> heap) option" where
  "exec 0 h fr = None"
| "exec (Suc n) h fr =
     (if counter fr < bytecode_len fr
      then (case dispatch (\<lambda>h' fr'. exec n h' (start fr'))
                   (co_instrs (code fr) ! (counter fr div 2)) h fr of
              None \<Rightarrow> None
            | Some (Inl e) \<Rightarrow> Some (Inl e)
            | Some (Inr (ret, h', fr')) \<Rightarrow> exec n h' (advance fr'))
      else Some (Inr (return_value fr, h)))"

definition run :: "nat \<Rightarrow> heap \<Rightarrow> frame \<Rightarrow> (error + val \<times> heap) option" where
  "run n h fr = exec n h (start fr)"

text \<open>
  \<open>VirtualMachine.run\<close>: a new empty dictionary serves as globals and as locals of the
  top-level Frame. The builtins dictionary of the host is at \<open>frame_builtins\<close>.
\<close>

definition top_level_frame :: "code \<Rightarrow> ref \<Rightarrow> heap \<Rightarrow> frame \<times> heap" where
  "top_level_frame code_obj frame_builtins h =
     (case alloc [] h of
        (globals_context, h') \<Rightarrow>
          (Frame code_obj frame_builtins globals_context globals_context, h'))"

definition vm_run :: "nat \<Rightarrow> code \<Rightarrow> ref \<Rightarrow> heap \<Rightarrow> (error + val \<times> heap) option" where
  "vm_run n code_obj frame_builtins h =
     (case top_level_frame code_obj frame_builtins h of (fr, h') \<Rightarrow> run n h' fr)"

text \<open>The value a run returns, without the store.\<close>

definition result_value :: "(error + val \<times> heap) option \<Rightarrow> (error + val) option" where
  "result_value r = map_option (map_sum id fst) r"

text \<open>
  The locals dictionary of the Frame created when the function value \<open>f\<close> is called.
\<close>

definition seeded_locals :: "heap \<Rightarrow> val \<Rightarrow> val list \<Rightarrow> dict \<Rightarrow> error + dict" where
  "seeded_locals h f args kwargs =
     (case f of
        VFunc a qualname cd defaults lref gref bref \<Rightarrow>
          (case function_frame h cd defaults lref gref bref args kwargs of
             Inl e \<Rightarrow> Inl e
           | Inr (fr, h') \<Rightarrow> Inr (cells h' (locals fr)))
      | _ \<Rightarrow> Inl TypeError)"

section \<open>Example objects\<close>

text \<open>
  A store whose address 0 holds the builtins and address 1 the locals of a Frame, and a
  Frame on it with globals at 2. \<open>return_none\<close> is the body \<open>return None\<close>.
\<close>

definition store0 :: heap where
  "store0 = \<lparr>cells = (\<lambda>r. []), fresh = 3\<rparr>"

definition return_none :: "instr list" where
  "return_none = [LOAD_CONST VNone, RETURN_VALUE]"

definition frame0 :: frame where
  "frame0 = Frame (Code return_none [] 0 0 0 64) 0 2 1"

text \<open>
  The code of \<open>def f(a, /, b=5, *args, c): return None\<close>: flags
  \<open>OPTIMIZED | NEWLOCALS | VARARGS | NOFREE\<close>.
\<close>

definition code_abc :: code where
  "code_abc = Code return_none [''a'', ''b'', ''c'', ''args''] 2 1 1 71"

text \<open>The code of \<open>def f(a): return 1\<close>, and a module that defines and calls it.\<close>

definition code_one_param :: code where
  "code_one_param = Code [LOAD_CONST (VInt 1), RETURN_VALUE] [''a''] 1 0 0 67"

definition module_calling :: "val list \<Rightarrow> code" where
  "module_calling arguments =
     Code ([LOAD_CONST (VCode code_one_param), LOAD_CONST (VStr ''f''), MAKE_FUNCTION 0,
            STORE_NAME ''f'', LOAD_NAME ''f'']
           @ map LOAD_CONST arguments
           @ [CALL_FUNCTION (length arguments), RETURN_VALUE]) [] 0 0 0 64"

text \<open>
  A module that defines and calls \<open>outer\<close>; \<open>outer\<close> builds the function
  \<open>inner\<close>, then stores 7 in its local \<open>y\<close>, then calls \<open>inner\<close>, whose body
  loads the name \<open>y\<close> and returns it.
\<close>

definition code_inner :: code where
  "code_inner = Code [LOAD_NAME ''y'', RETURN_VALUE] [] 0 0 0 67"

definition code_outer :: code where
  "code_outer =
     Code [LOAD_CONST (VCode code_inner), LOAD_CONST (VStr ''inner''), MAKE_FUNCTION 0,
           LOAD_CONST (VInt 7), STORE_FAST ''y'', CALL_FUNCTION 0, RETURN_VALUE]
          [''y''] 0 0 0 67"

definition module_nested :: code where
  "module_nested =
     Code [LOAD_CONST (VCode code_outer), LOAD_CONST (VStr ''outer''), MAKE_FUNCTION 0,
           CALL_FUNCTION 0, RETURN_VALUE] [] 0 0 0 64"

text \<open>
  A module that raises: \<open>ValueError\<close> is instantiated and raised, and the
  instructions after the raise return 7.
\<close>

definition module_raise :: code where
  "module_raise =
     Code [LOAD_CONST (VExcType ''ValueError''), CALL_FUNCTION 0, RAISE_VARARGS 1,
           LOAD_CONST (VInt 7), RETURN_VALUE] [] 0 0 0 64"

section \<open>Properties of the operand stack\<close>

lemma pop_seq_stack:
  "k \<le> length (data_stack fr) \<Longrightarrow>
   pop_seq k fr =
     Inr (rev (drop (length (data_stack fr) - k) (data_stack fr)),
          fr\<lparr>data_stack := take (length (data_stack fr) - k) (data_stack fr)\<rparr>)"
proof (induction k arbitrary: fr)
  case 0
  then show ?case by simp
next
  case (Suc k)
  let ?st = "data_stack fr"
  let ?fr' = "fr\<lparr>data_stack := butlast ?st\<rparr>"
  from Suc.prems have ne: "?st \<noteq> []" by auto
  have len: "length (data_stack ?fr') = length ?st - 1" by simp
  from Suc.prems have k: "k \<le> length (data_stack ?fr')" by simp
  have p: "pop fr = Inr (last ?st, ?fr')" using ne by (simp add: pop_def)
  have "drop (length ?st - Suc k) (butlast ?st @ [last ?st]) =
        drop (length ?st - Suc k) (butlast ?st) @ [last ?st]"
    by simp
  then have d: "drop (length ?st - Suc k) ?st =
                drop (length ?st - Suc k) (butlast ?st) @ [last ?st]"
    using ne by simp
  have t: "take (length ?st - Suc k) (butlast ?st) = take (length ?st - Suc k) ?st"
    using ne by (simp add: take_butlast)
  have "pop_seq (Suc k) fr =
        Inr (last ?st # rev (drop (length ?st - Suc k) (butlast ?st)),
             ?fr'\<lparr>data_stack := take (length ?st - Suc k) (butlast ?st)\<rparr>)"
    using Suc.IH [OF k] p by simp
  then show ?case
    using d t by simp
qed

text \<open>
  C8: \<open>popn(0)\<close> returns the empty sequence and leaves the stack unchanged; for
  \<open>0 < n \<le> depth\<close>, \<open>popn(n)\<close> removes exactly \<open>n\<close> elements, the removed
  elements are the top \<open>n\<close> in stack order (deepest first), and they are the reverse
  of what \<open>n\<close> successive \<open>pop()\<close> calls return on the same stack, which leave the
  same stack behind.
\<close>

theorem popn_matches_pops:
  "popn 0 fr = ([], fr) \<and>
   (0 < n \<and> n \<le> length (data_stack fr) \<longrightarrow>
      length (fst (popn (int n) fr)) = n \<and>
      length (data_stack (snd (popn (int n) fr))) = length (data_stack fr) - n \<and>
      data_stack fr = data_stack (snd (popn (int n) fr)) @ fst (popn (int n) fr) \<and>
      pop_seq n fr = Inr (rev (fst (popn (int n) fr)), snd (popn (int n) fr)))"
  using pop_seq_stack [of n fr]
  by (simp add: popn_def Let_def)


theorem popn_matches_pops_witness:
  "pop_seq 2 (push [VInt 1, VInt 2, VInt 3] frame0) =
     Inr ([VInt 3, VInt 2], push [VInt 1] frame0)"
  using popn_matches_pops [of "push [VInt 1, VInt 2, VInt 3] frame0" 2]
  by (simp add: popn_def push_def frame0_def Frame_def)

section \<open>Conditional jumps that keep or pop the tested value\<close>

text \<open>
  C3, as the spec states it, fails: with a true value on top, \<open>jump_if_true_or_pop_op\<close>
  jumps and the tested value is still on the stack; with a false value on top it does not
  jump and the value is gone.
\<close>

theorem jump_or_pop_counterexample:
  "jump_if_true_or_pop_op 10 (push [VInt 1] frame0) =
     Inr ((push [VInt 1] frame0)\<lparr>jump := Some 10\<rparr>) \<and>
   jump_if_true_or_pop_op 10 (push [VInt 0] frame0) = Inr frame0"
  by (simp add: jump_if_true_or_pop_op_def top_def pop_def push_def frame0_def Frame_def)

text \<open>
  C3, amended: for \<open>jump_if_true_or_pop_op\<close> and \<open>jump_if_false_or_pop_op\<close>, on
  every execution in which the handler jumps (the top value is true, respectively false)
  the tested value is left on the stack and only the pending jump is set; on every
  execution in which it does not jump the tested value is popped and nothing else
  changes.
\<close>

theorem jump_or_pop_keeps_value_when_jumping:
  "data_stack fr = st @ [v] \<Longrightarrow>
   jump_if_true_or_pop_op t fr =
     Inr (if truthy v then fr\<lparr>jump := Some t\<rparr> else fr\<lparr>data_stack := st\<rparr>) \<and>
   jump_if_false_or_pop_op t fr =
     Inr (if \<not> truthy v then fr\<lparr>jump := Some t\<rparr> else fr\<lparr>data_stack := st\<rparr>)"
  by (simp add: jump_if_true_or_pop_op_def jump_if_false_or_pop_op_def top_def pop_def)

theorem jump_or_pop_keeps_value_when_jumping_witness:
  "jump_if_true_or_pop_op 10 (push [VStr ''x''] frame0) =
     Inr ((push [VStr ''x''] frame0)\<lparr>jump := Some 10\<rparr>) \<and>
   jump_if_false_or_pop_op 10 (push [VStr ''x''] frame0) = Inr frame0"
  using jump_or_pop_keeps_value_when_jumping [of "push [VStr ''x''] frame0" "[]" "VStr ''x''" 10]
  by (simp add: push_def frame0_def Frame_def)

section \<open>Building a dictionary from the stack\<close>

text \<open>
  C4 at count 2, on the stack \<open>1, 2, 3, 4\<close>: the handler pops the four values and
  pushes one dictionary, but its entries are the three overlapping pairs
  \<open>{1: 2, 2: 3, 3: 4}\<close>, not the two pairs \<open>{1: 2, 3: 4}\<close> taken two at a time.
\<close>

theorem build_map_overlapping_pairs:
  "build_map_op 2 (push [VInt 1, VInt 2, VInt 3, VInt 4] frame0) =
     Inr (push [VDict [(VInt 1, VInt 2), (VInt 2, VInt 3), (VInt 3, VInt 4)]] frame0)"
  by (simp add: build_map_op_def popn_def push_def frame0_def Frame_def upt_rec)

section \<open>The raise handler\<close>

text \<open>
  C7: with \<open>argc\<close> from 1 to 3 and that many operands on the stack, read from the
  deepest as type, value and traceback, \<open>raise_varargs_op\<close> pops exactly these; when
  the type operand is an exception instance, the instance is stored as the value and its
  class as the type; the Frame stores type, value and traceback in \<open>last_exception\<close>
  (an operand not supplied is \<open>None\<close>); and the handler returns \<open>reraise\<close> exactly
  when a traceback is there, which the code tests as the truth of the traceback slot
  (a traceback object is true, \<open>None\<close>, the absent traceback, is false), and
  \<open>exception\<close> otherwise.
\<close>

theorem raise_varargs_pops_and_records:
  "(data_stack fr = st @ [t] \<longrightarrow>
      raise_varargs_op 1 fr =
        Inr (VStr ''exception'',
             fr\<lparr>data_stack := st,
                last_exception := (if is_exception_instance t
                                   then [type_of_exception t, t, VNone]
                                   else [t, VNone, VNone])\<rparr>)) \<and>
   (data_stack fr = st @ [t, v] \<longrightarrow>
      raise_varargs_op 2 fr =
        Inr (VStr ''exception'',
             fr\<lparr>data_stack := st,
                last_exception := (if is_exception_instance t
                                   then [type_of_exception t, t, VNone]
                                   else [t, v, VNone])\<rparr>)) \<and>
   (data_stack fr = st @ [t, v, tb] \<longrightarrow>
      raise_varargs_op 3 fr =
        Inr (VStr (if truthy tb then ''reraise'' else ''exception''),
             fr\<lparr>data_stack := st,
                last_exception := (if is_exception_instance t
                                   then [type_of_exception t, t, tb]
                                   else [t, v, tb])\<rparr>))"
  by (simp add: raise_varargs_op_def raise_operands_def pop_def butlast_append Let_def)

theorem raise_varargs_pops_and_records_witness:
  "raise_varargs_op 1 (push [VExcInst 7 ''ValueError'' [VInt 3]] frame0) =
     Inr (VStr ''exception'',
          frame0\<lparr>last_exception :=
                   [VExcType ''ValueError'', VExcInst 7 ''ValueError'' [VInt 3], VNone]\<rparr>) \<and>
   raise_varargs_op 2 (push [VExcType ''KeyError'', VInt 3] frame0) =
     Inr (VStr ''exception'',
          frame0\<lparr>last_exception := [VExcType ''KeyError'', VInt 3, VNone]\<rparr>) \<and>
   raise_varargs_op 3 (push [VExcType ''KeyError'', VInt 3, VTraceback 9] frame0) =
     Inr (VStr ''reraise'',
          frame0\<lparr>last_exception := [VExcType ''KeyError'', VInt 3, VTraceback 9]\<rparr>)"
  using
    raise_varargs_pops_and_records
      [where fr = "push [VExcInst 7 ''ValueError'' [VInt 3]] frame0" and st = "[]"
         and t = "VExcInst 7 ''ValueError'' [VInt 3]"]
    raise_varargs_pops_and_records
      [where fr = "push [VExcType ''KeyError'', VInt 3] frame0" and st = "[]"
         and t = "VExcType ''KeyError''" and v = "VInt 3"]
    raise_varargs_pops_and_records
      [where fr = "push [VExcType ''KeyError'', VInt 3, VTraceback 9] frame0" and st = "[]"
         and t = "VExcType ''KeyError''" and v = "VInt 3" and tb = "VTraceback 9"]
  by (simp add: push_def frame0_def Frame_def)


section \<open>Parameter binding\<close>

subsection \<open>Slices and dictionary keys\<close>

lemma slice_prefix: "slice None (Some (int k)) xs = take k xs"
  by (simp add: slice_def slice_bound_def min_def)

lemma slice_middle: "slice (Some (int p)) (Some (int a)) xs = drop p (take a xs)"
  by (simp add: slice_def slice_bound_def drop_take min_def)

lemma slice_suffix: "slice (Some (int a)) None xs = drop a xs"
  by (simp add: slice_def slice_bound_def min_def)

lemma dict_update_keys: "fst ` set (dict_update d e) = fst ` set d \<union> fst ` set e"
  unfolding dict_update_def
  by (induction e arbitrary: d) (simp_all add: dom_update case_prod_beta)

lemma dict_update_other: "p \<notin> fst ` set e \<Longrightarrow> map_of (dict_update d e) p = map_of d p"
  unfolding dict_update_def
  by (induction e arbitrary: d) (auto simp: update_conv')

lemma split_kwargs_keys:
  "split_kwargs c kw (a0, b0, c0) = (a, b, c') \<Longrightarrow>
   fst ` set a \<union> fst ` set b \<union> fst ` set c' \<subseteq>
     fst ` set a0 \<union> fst ` set b0 \<union> fst ` set c0 \<union> fst ` set kw"
proof (induction kw arbitrary: a0 b0 c0)
  case Nil
  then show ?case by auto
next
  case (Cons kv kw)
  obtain k v where kv: "kv = (k, v)" by (cases kv)
  show ?case
    using Cons.prems Cons.IH [of "AList.update k v a0" b0 c0]
      Cons.IH [of a0 "AList.update k v b0" c0] Cons.IH [of a0 b0 "AList.update k v c0"]
    by (auto simp: kv dom_update split: if_splits)
qed

lemma zip_keys: "fst ` set (zip xs ys) \<subseteq> set (take (length ys) xs)"
proof -
  have "fst ` set (zip xs ys) = set (map fst (zip xs ys))" by simp
  also have "\<dots> = set (take (min (length xs) (length ys)) xs)"
    by (simp only: map_fst_zip_take)
  also have "\<dots> \<subseteq> set (take (length ys) xs)"
    by (simp add: min_def)
  finally show ?thesis .
qed

lemma distinct_nth_in_take:
  assumes "distinct xs" "i < length xs" "xs ! i \<in> set (take k xs)"
  shows "i < k"
proof -
  from assms(3) obtain j where j: "j < length (take k xs)" "take k xs ! j = xs ! i"
    by (auto simp: in_set_conv_nth)
  then have "xs ! j = xs ! i" "j < length xs" "j < k" by auto
  with assms(1,2) have "j = i" by (simp add: nth_eq_iff_index_eq)
  with \<open>j < k\<close> show ?thesis by simp
qed

lemma positional_keys:
  "fst ` set (zip (posonly_names c) (take (co_posonlyargcount c) args))
     \<subseteq> set (take (min (length args) (co_posonlyargcount c)) (co_varnames c)) \<and>
   fst ` set (zip (pos_or_kw_names c) (drop (co_posonlyargcount c) (take (co_argcount c) args)))
     \<subseteq> set (take (min (length args) (co_argcount c)) (co_varnames c))"
proof
  let ?po = "co_posonlyargcount c" and ?ac = "co_argcount c" and ?vn = "co_varnames c"
  show "fst ` set (zip (posonly_names c) (take ?po args))
          \<subseteq> set (take (min (length args) ?po) ?vn)"
    using zip_keys [of "take ?po ?vn" "take ?po args"]
    by (simp add: posonly_names_def slice_prefix)
  define m where "m = min (length args) ?ac"
  have len: "length (drop ?po (take ?ac args)) = m - ?po"
    by (simp add: m_def)
  have "set (take (m - ?po) (drop ?po (take ?ac ?vn))) \<subseteq> set (take m ?vn)"
  proof (cases "?po \<le> m")
    case True
    then have "take (m - ?po) (drop ?po (take ?ac ?vn)) = drop ?po (take m (take ?ac ?vn))"
      by (simp add: take_drop)
    moreover have "take m (take ?ac ?vn) = take m ?vn"
      by (simp add: m_def)
    ultimately show ?thesis
      by (simp add: set_drop_subset)
  next
    case False
    then show ?thesis by simp
  qed
  with zip_keys [of "drop ?po (take ?ac ?vn)" "drop ?po (take ?ac args)"] len
  show "fst ` set (zip (pos_or_kw_names c) (drop ?po (take ?ac args)))
          \<subseteq> set (take (min (length args) ?ac) ?vn)"
    unfolding pos_or_kw_names_def slice_middle m_def by simp
qed

lemma union_bound:
  "B \<subseteq> P \<Longrightarrow> C \<subseteq> Q \<Longrightarrow> a \<subseteq> K \<Longrightarrow> b \<subseteq> K \<Longrightarrow>
   A \<union> (B \<union> C \<union> a \<union> b) \<subseteq> A \<union> P \<union> Q \<union> K"
  by blast

lemma named_args_keys:
  "fst ` set (named_args c defaults args kwargs) \<subseteq>
     fst ` set (zip (defaults_names c defaults) defaults)
     \<union> set (take (min (length args) (co_posonlyargcount c)) (co_varnames c))
     \<union> set (take (min (length args) (co_argcount c)) (co_varnames c))
     \<union> fst ` set kwargs"
proof -
  obtain a b c' where sk: "split_kwargs c kwargs ([], [], []) = (a, b, c')"
    by (cases "split_kwargs c kwargs ([], [], [])") auto
  from split_kwargs_keys [OF sk]
  have k: "fst ` set a \<subseteq> fst ` set kwargs" "fst ` set b \<subseteq> fst ` set kwargs" by auto
  let ?po = "co_posonlyargcount c" and ?ac = "co_argcount c"
  have keys: "fst ` set (named_args c defaults args kwargs) =
      fst ` set (zip (defaults_names c defaults) defaults) \<union>
      (fst ` set (zip (posonly_names c) (take ?po args)) \<union>
       fst ` set (zip (pos_or_kw_names c) (drop ?po (take ?ac args))) \<union>
       fst ` set a \<union> fst ` set b)"
    unfolding named_args_def Let_def sk dict_zip_def slice_prefix slice_middle
    by (simp add: dict_update_keys)
  show ?thesis
    unfolding keys
    using positional_keys [of c args] k
    by (intro union_bound) simp_all
qed


lemma distinct_nth_neq:
  "distinct xs \<Longrightarrow> i < j \<Longrightarrow> j < length xs \<Longrightarrow> xs ! j \<noteq> xs ! i"
  by (simp add: nth_eq_iff_index_eq)

subsection \<open>Defaults\<close>

text \<open>
  C1 on the callable that \<open>make_function_op\<close> builds from the code of
  \<open>def f(a, /, b=5, *args, c)\<close> with the default 5 on the stack. The names paired
  with the defaults are \<open>co_varnames[co_kwonlyargcount - len(defaults) : co_argcount]\<close>,
  here \<open>a, b\<close>, so the default 5 goes to \<open>a\<close> and not to \<open>b\<close>. Called with
  \<open>(1,)\<close> and \<open>{c: 9}\<close> the callable binds \<open>a = 1\<close>, \<open>c = 9\<close>,
  \<open>args = ()\<close> and leaves \<open>b\<close> unbound, where the claim has \<open>b = 5\<close>. Called
  with \<open>(1, 2, 3)\<close> and \<open>{c: 9}\<close> it binds what the claim says. (The locals of the
  defining Frame, at address 1, are empty, so the locals of the new Frame are the
  bindings.) The same holds when the value on the stack is the tuple \<open>(5,)\<close> of
  defaults that the CPython compiler pushes for this \<open>def\<close>: \<open>b\<close> stays unbound.
\<close>

theorem default_paired_with_wrong_name:
  "make_function_op 1 store0 (push [VInt 5, VCode code_abc, VStr ''f''] frame0) =
     Inr (snd (alloc [] store0), push [VFunc 3 ''f'' (VCode code_abc) [VInt 5] 1 2 0] frame0) \<and>
   defaults_names code_abc [VInt 5] = [''a'', ''b''] \<and>
   seeded_locals (snd (alloc [] store0)) (VFunc 3 ''f'' (VCode code_abc) [VInt 5] 1 2 0)
       [VInt 1] [(''c'', VInt 9)] =
     Inr [(''a'', VInt 1), (''c'', VInt 9), (''args'', VTuple [])] \<and>
   seeded_locals (snd (alloc [] store0)) (VFunc 3 ''f'' (VCode code_abc) [VInt 5] 1 2 0)
       [VInt 1, VInt 2, VInt 3] [(''c'', VInt 9)] =
     Inr [(''a'', VInt 1), (''b'', VInt 2), (''c'', VInt 9), (''args'', VTuple [VInt 3])] \<and>
   make_function_op 1 store0 (push [VTuple [VInt 5], VCode code_abc, VStr ''f''] frame0) =
     Inr (snd (alloc [] store0),
          push [VFunc 3 ''f'' (VCode code_abc) [VTuple [VInt 5]] 1 2 0] frame0) \<and>
   seeded_locals (snd (alloc [] store0))
       (VFunc 3 ''f'' (VCode code_abc) [VTuple [VInt 5]] 1 2 0) [VInt 1] [(''c'', VInt 9)] =
     Inr [(''a'', VInt 1), (''c'', VInt 9), (''args'', VTuple [])]"
  by (simp add: make_function_op_def pop_def popn_def push_def frame0_def Frame_def store0_def
      alloc_def seeded_locals_def function_frame_def parsed_args_def named_args_def
      defaults_names_def posonly_names_def pos_or_kw_names_def kwonly_names_def slice_def
      slice_bound_def code_abc_def has_varargs_def has_varkwargs_def CO_VARARGS_def
      CO_VARKEYWORDS_def varname_at_def f_locals_def dict_zip_def dict_update_def Let_def)

subsection \<open>Missing arguments\<close>

text \<open>
  C5, as the spec states it, fails: a module that defines \<open>def f(a): return 1\<close> and
  calls \<open>f()\<close> runs to the end and returns 1; no error is raised for the missing
  argument.
\<close>

theorem missing_argument_counterexample:
  "co_varnames code_one_param = [''a''] \<and> co_argcount code_one_param = 1 \<and>
   result_value (vm_run 20 (module_calling []) 0 store0) = Some (Inr (VInt 1))"
  by code_simp

text \<open>
  C5, amended: the code has no arity check. For a code object whose variable names are
  distinct and cover the declared slots, take a declared parameter (at index \<open>i\<close> of
  the positional and keyword-only names) that no positional argument reaches, that no
  keyword argument names, and that is not among the names the code pairs with a default.
  Binding succeeds, the parameter is absent from the computed bindings, the new Frame is
  created, and in its locals the name holds whatever the locals of the defining Frame
  hold for it at that time (nothing when they do not hold it).
\<close>

theorem missing_argument_left_unbound:
  assumes wf: "co_argcount c + co_kwonlyargcount c + (if has_varargs c then 1 else 0)
                 + (if has_varkwargs c then 1 else 0) \<le> length (co_varnames c)"
      and dist: "distinct (co_varnames c)"
      and po: "co_posonlyargcount c \<le> co_argcount c"
      and i: "i < co_argcount c + co_kwonlyargcount c"
      and no_pos: "co_argcount c \<le> i \<or> length args \<le> i"
      and no_kw: "co_varnames c ! i \<notin> fst ` set kwargs"
      and no_default: "co_varnames c ! i \<notin> fst ` set (zip (defaults_names c defaults) defaults)"
  shows "\<exists>pa fr h'.
           parsed_args c defaults args kwargs = Inr pa \<and>
           map_of pa (co_varnames c ! i) = None \<and>
           function_frame h (VCode c) defaults lref gref bref args kwargs = Inr (fr, h') \<and>
           map_of (cells h' (locals fr)) (co_varnames c ! i) = map_of (cells h lref) (co_varnames c ! i)"
proof -
  let ?vn = "co_varnames c" and ?p = "co_varnames c ! i"
  let ?n = "co_argcount c + co_kwonlyargcount c"
  from wf i have il: "i < length ?vn" by (simp split: if_splits)
  have "?p \<notin> set (take (min (length args) (co_posonlyargcount c)) ?vn)"
    using distinct_nth_in_take [OF dist il, of "min (length args) (co_posonlyargcount c)"]
      no_pos po by auto
  moreover have "?p \<notin> set (take (min (length args) (co_argcount c)) ?vn)"
    using distinct_nth_in_take [OF dist il, of "min (length args) (co_argcount c)"]
      no_pos by auto
  ultimately have "?p \<notin> fst ` set (named_args c defaults args kwargs)"
    using named_args_keys [of c defaults args kwargs] no_kw no_default by blast
  then have named: "map_of (named_args c defaults args kwargs) ?p = None"
    by (simp add: map_of_eq_None_iff)
  have v1: "has_varargs c \<Longrightarrow> ?n < length ?vn \<and> ?p \<noteq> ?vn ! ?n"
    using wf i distinct_nth_neq [OF dist, of i ?n] by (auto split: if_splits)
  have v2: "has_varkwargs c \<Longrightarrow> \<not> has_varargs c \<Longrightarrow> ?n < length ?vn \<and> ?p \<noteq> ?vn ! ?n"
    using wf i distinct_nth_neq [OF dist, of i ?n] by (auto split: if_splits)
  have v3: "has_varkwargs c \<Longrightarrow> has_varargs c \<Longrightarrow> Suc ?n < length ?vn \<and> ?p \<noteq> ?vn ! Suc ?n"
    using wf i distinct_nth_neq [OF dist, of i "Suc ?n"] by (auto split: if_splits)
  have "\<exists>pa. parsed_args c defaults args kwargs = Inr pa \<and> map_of pa ?p = None"
    using named v1 v2 v3
    by (cases "has_varargs c"; cases "has_varkwargs c")
       (simp_all add: parsed_args_def varname_at_def update_conv' Let_def)
  then obtain pa where pa: "parsed_args c defaults args kwargs = Inr pa"
    and none: "map_of pa ?p = None"
    by blast
  have "p \<notin> fst ` set pa" if "p = ?p" for p
    using none that by (simp add: map_of_eq_None_iff)
  then have "map_of (dict_update (cells h lref) pa) ?p = map_of (cells h lref) ?p"
    by (simp add: dict_update_other)
  then show ?thesis
    using pa none
    by (simp add: function_frame_def f_locals_def alloc_def Frame_def)
qed


theorem missing_argument_left_unbound_witness:
  "\<exists>pa fr h'.
     parsed_args code_one_param [] [] [] = Inr pa \<and>
     map_of pa ''a'' = None \<and>
     function_frame store0 (VCode code_one_param) [] 1 2 0 [] [] = Inr (fr, h') \<and>
     map_of (cells h' (locals fr)) ''a'' = None"
  using missing_argument_left_unbound
    [where c = code_one_param and i = 0 and args = "[]" and kwargs = "[]"
       and defaults = "[]" and h = store0 and lref = 1 and gref = 2 and bref = 0]
  by (simp add: code_one_param_def has_varargs_def has_varkwargs_def CO_VARARGS_def
      CO_VARKEYWORDS_def store0_def)

subsection \<open>Excess positional arguments\<close>

text \<open>
  C6, as the spec states it, fails: \<open>f\<close> declares one positional parameter and no
  varargs slot, and the call \<open>f(1, 2)\<close> returns 1.
\<close>

theorem excess_positional_counterexample:
  "\<not> has_varargs code_one_param \<and>
   co_argcount code_one_param < length [VInt 1, VInt 2] \<and>
   result_value (vm_run 20 (module_calling [VInt 1, VInt 2]) 0 store0) = Some (Inr (VInt 1))"
  by code_simp

text \<open>
  C6, amended: when the code object declares no varargs slot (and, as in every code
  object, its positional-only parameters are among its positional parameters), the
  positional arguments beyond the declared positional count are dropped without an error: the bindings, and
  the whole call, are those of the call with the first \<open>co_argcount\<close> positional
  arguments only.
\<close>

theorem excess_positional_arguments_dropped:
  assumes "\<not> has_varargs c" "co_posonlyargcount c \<le> co_argcount c"
  shows "parsed_args c defaults args kwargs =
           parsed_args c defaults (take (co_argcount c) args) kwargs \<and>
         call_value runner h (VFunc a q (VCode c) defaults lref gref bref) args kwargs =
           call_value runner h (VFunc a q (VCode c) defaults lref gref bref)
             (take (co_argcount c) args) kwargs"
proof -
  have "parsed_args c defaults args kwargs =
          parsed_args c defaults (take (co_argcount c) args) kwargs"
    using assms
    by (simp add: parsed_args_def named_args_def slice_prefix slice_middle min_absorb1 Let_def)
  then show ?thesis
    by (simp add: call_value_def function_frame_def)
qed


theorem excess_positional_arguments_dropped_witness:
  "\<not> has_varargs code_one_param \<and>
   call_value (\<lambda>h fr. exec 5 h (start fr)) store0
       (VFunc 3 ''f'' (VCode code_one_param) [] 1 2 0) [VInt 1, VInt 2] [] =
     call_value (\<lambda>h fr. exec 5 h (start fr)) store0
       (VFunc 3 ''f'' (VCode code_one_param) [] 1 2 0) [VInt 1] []"
  using excess_positional_arguments_dropped
    [where c = code_one_param and defaults = "[]" and args = "[VInt 1, VInt 2]"
       and kwargs = "[]" and runner = "\<lambda>h fr. exec 5 h (start fr)" and h = store0
       and a = 3 and q = "''f''" and lref = 1 and gref = 2 and bref = 0]
  by (simp add: code_one_param_def has_varargs_def CO_VARARGS_def)


section \<open>The locals of an invoked function\<close>

text \<open>
  C2, as the spec states it, fails. \<open>make_function_op\<close> builds \<open>inner\<close> in a Frame
  whose locals (address 1) are empty; called at once, \<open>inner\<close> would start with empty
  locals. After \<open>store_fast_op\<close> has stored \<open>y = 7\<close> in the locals of the defining
  Frame, the same function value starts with \<open>y = 7\<close> in its locals. Run as a whole,
  the module returns 7, the value \<open>inner\<close> finds under \<open>y\<close> in its own locals
  (\<open>y\<close> is in no globals and no builtins).
\<close>

theorem locals_snapshot_counterexample:
  "make_function_op 0 store0 (push [VCode code_inner, VStr ''inner''] frame0) =
     Inr (snd (alloc [] store0), push [VFunc 3 ''inner'' (VCode code_inner) [] 1 2 0] frame0) \<and>
   seeded_locals (snd (alloc [] store0)) (VFunc 3 ''inner'' (VCode code_inner) [] 1 2 0) [] [] =
     Inr [] \<and>
   store_fast_op ''y'' (snd (alloc [] store0))
       (push [VFunc 3 ''inner'' (VCode code_inner) [] 1 2 0, VInt 7] frame0) =
     Inr (set_cell 1 [(''y'', VInt 7)] (snd (alloc [] store0)),
          push [VFunc 3 ''inner'' (VCode code_inner) [] 1 2 0] frame0) \<and>
   seeded_locals (set_cell 1 [(''y'', VInt 7)] (snd (alloc [] store0)))
       (VFunc 3 ''inner'' (VCode code_inner) [] 1 2 0) [] [] =
     Inr [(''y'', VInt 7)] \<and>
   result_value (vm_run 20 module_nested 0 store0) = Some (Inr (VInt 7))"
proof (intro conjI)
  show "result_value (vm_run 20 module_nested 0 store0) = Some (Inr (VInt 7))"
    by code_simp
qed (simp_all add: make_function_op_def store_fast_op_def seeded_locals_def function_frame_def
      parsed_args_def named_args_def f_locals_def pop_def popn_def push_def frame0_def Frame_def
      store0_def alloc_def set_cell_def code_inner_def has_varargs_def has_varkwargs_def
      CO_VARARGS_def CO_VARKEYWORDS_def dict_zip_def dict_update_def defaults_names_def
      posonly_names_def pos_or_kw_names_def slice_def slice_bound_def Let_def)


lemma make_function_value:
  assumes "make_function_op n h0 fr0 = Inr (h1, fr1)"
  shows "\<exists>a q cd ds. last (data_stack fr1) = VFunc a q cd ds (locals fr0) (globals fr0) (builtins fr0)"
  using assms
  by (auto simp: make_function_op_def pop_def popn_def push_def alloc_def Let_def
      split: if_splits val.splits prod.splits)

text \<open>
  Addresses are handed out fresh and the store only grows: a Frame is created on a
  locals dictionary below \<open>fresh\<close>, and no call and no run lowers \<open>fresh\<close>.
\<close>

lemma call_value_fresh_mono:
  assumes r: "\<And>h fr v h'. runner h fr = Some (Inr (v, h')) \<Longrightarrow> fresh h \<le> fresh h'"
      and c: "call_value runner h f args kwargs = Some (Inr (v, h'))"
  shows "fresh h \<le> fresh h'"
proof (cases f)
  case (VFunc a q cd ds l g b)
  with c obtain fr h1 where ff: "function_frame h cd ds l g b args kwargs = Inr (fr, h1)"
    and run: "runner h1 fr = Some (Inr (v, h'))"
    by (auto simp: call_value_def split: sum.splits)
  from ff have "fresh h1 = Suc (fresh h)"
    by (auto simp: function_frame_def alloc_def split: val.splits sum.splits)
  with r [OF run] show ?thesis by simp
next
  case (VExcType n)
  with c show ?thesis
    by (auto simp: call_value_def alloc_def split: if_splits)
qed (use c in \<open>simp_all add: call_value_def\<close>)

lemma dispatch_fresh_mono:
  assumes r: "\<And>h fr v h'. runner h fr = Some (Inr (v, h')) \<Longrightarrow> fresh h \<le> fresh h'"
      and d: "dispatch runner i h fr = Some (Inr (ret, h', fr'))"
  shows "fresh h \<le> fresh h'"
proof (cases i)
  case (RAISE_VARARGS n)
  then show ?thesis
    using d by (auto split: sum.splits)
next
  case (MAKE_FUNCTION n)
  then show ?thesis
    using d
    by (auto simp: on_state_def make_function_op_def alloc_def
        split: sum.splits val.splits prod.splits)
next
  case (CALL_FUNCTION n)
  with d obtain fr1 f fr2 v where "call_value runner h f (fst (popn (int n) fr)) [] = Some (Inr (v, h'))"
    by (auto simp: on_state_def call_function_op_def
        split: sum.splits option.splits prod.splits)
  from call_value_fresh_mono [OF r this] show ?thesis .
qed (use d in \<open>auto simp: on_frame_def on_state_def store_name_op_def store_global_op_def
      store_fast_op_def delete_name_op_def delete_fast_op_def set_cell_def
      split: sum.splits\<close>)

lemma exec_fresh_mono:
  "exec n h fr = Some (Inr (v, h')) \<Longrightarrow> fresh h \<le> fresh h'"
proof (induction n arbitrary: h fr v h')
  case 0
  then show ?case by simp
next
  case (Suc n)
  show ?case
  proof (cases "counter fr < bytecode_len fr")
    case True
    with Suc.prems obtain ret h1 fr1 where
      d: "dispatch (\<lambda>h' fr'. exec n h' (start fr')) (co_instrs (code fr) ! (counter fr div 2)) h fr
            = Some (Inr (ret, h1, fr1))"
      and e: "exec n h1 (advance fr1) = Some (Inr (v, h'))"
      by (auto split: option.splits sum.splits)
    have "fresh h \<le> fresh h1"
      using dispatch_fresh_mono [OF _ d] Suc.IH by blast
    moreover have "fresh h1 \<le> fresh h'"
      using Suc.IH [OF e] .
    ultimately show ?thesis by simp
  next
    case False
    with Suc.prems show ?thesis by simp
  qed
qed

lemma new_frame_locals_allocated:
  "locals (fst (top_level_frame code_obj b h)) < fresh (snd (top_level_frame code_obj b h)) \<and>
   (function_frame h cd ds l g b args kwargs = Inr (fr, h') \<longrightarrow> locals fr < fresh h')"
  by (auto simp: top_level_frame_def function_frame_def alloc_def Frame_def
      split: val.splits sum.splits)

text \<open>
  C2, amended: the closure keeps the defining Frame, not a copy of its locals. For every
  function value pushed by \<open>make_function_op\<close> and every store \<open>h\<close> in which it is
  later called, the locals of the new Frame are a new dictionary (at a fresh address, no
  other dictionary of the store changes) holding the locals of the defining Frame as they
  are in \<open>h\<close>, at the time of the call, updated with the bindings of the call. So a
  mutation of the defining Frame's locals made after construction and before the call
  shows in the new Frame; globals and builtins are those of the defining Frame. The copy
  is not shared: when the locals of the defining Frame are an allocated dictionary of
  \<open>h\<close> (below \<open>fresh\<close>, as the locals of every Frame the machine creates are), the
  new Frame's locals are another dictionary, creating them leaves the defining Frame's
  locals as they were, and a later write to either dictionary leaves the other
  unchanged.
\<close>

theorem locals_copied_at_invocation:
  assumes mk: "make_function_op n h0 fr0 = Inr (h1, fr1)"
      and f: "last (data_stack fr1) = VFunc a q cd ds l g b"
      and inv: "function_frame h cd ds l g b args kwargs = Inr (fr, h')"
  shows "l = locals fr0 \<and> globals fr = globals fr0 \<and> builtins fr = builtins fr0 \<and>
         (\<exists>c pa. cd = VCode c \<and> parsed_args c ds args kwargs = Inr pa \<and>
                  cells h' (locals fr) = dict_update (cells h (locals fr0)) pa) \<and>
         locals fr = fresh h \<and> (\<forall>r. r \<noteq> fresh h \<longrightarrow> cells h' r = cells h r) \<and>
         (locals fr0 < fresh h \<longrightarrow>
            locals fr \<noteq> locals fr0 \<and>
            cells h' (locals fr0) = cells h (locals fr0) \<and>
            (\<forall>d. cells (set_cell (locals fr) d h') (locals fr0) = cells h (locals fr0)) \<and>
            (\<forall>d. cells (set_cell (locals fr0) d h') (locals fr) = cells h' (locals fr)))"
proof -
  from make_function_value [OF mk] f
  have refs: "l = locals fr0" "g = globals fr0" "b = builtins fr0" by auto
  from inv obtain c pa where c: "cd = VCode c" and pa: "parsed_args c ds args kwargs = Inr pa"
    by (auto simp: function_frame_def split: val.splits sum.splits)
  from inv c pa have fr: "fr = Frame c b g (fresh h)"
    and h': "h' = h\<lparr>cells := (cells h)(fresh h := dict_update (cells h l) pa), fresh := Suc (fresh h)\<rparr>"
    by (auto simp: function_frame_def alloc_def f_locals_def)
  have shared: "locals fr \<noteq> locals fr0 \<and>
            cells h' (locals fr0) = cells h (locals fr0) \<and>
            (\<forall>d. cells (set_cell (locals fr) d h') (locals fr0) = cells h (locals fr0)) \<and>
            (\<forall>d. cells (set_cell (locals fr0) d h') (locals fr) = cells h' (locals fr))"
    if "locals fr0 < fresh h"
    using that fr h' by (simp add: Frame_def set_cell_def)
  show ?thesis
    using refs c pa fr h' shared by (simp add: Frame_def)
qed

theorem locals_copied_at_invocation_witness:
  "(\<exists>c pa. VCode code_inner = VCode c \<and> parsed_args c [] [] [] = Inr pa \<and>
          cells (snd (alloc [(''y'', VInt 7)]
                   (set_cell 1 [(''y'', VInt 7)] (snd (alloc [] store0)))))
                (locals (Frame code_inner 0 2 4)) =
            dict_update (cells (set_cell 1 [(''y'', VInt 7)] (snd (alloc [] store0)))
                           (locals (push [VCode code_inner, VStr ''inner''] frame0))) pa) \<and>
   locals (push [VCode code_inner, VStr ''inner''] frame0)
     < fresh (set_cell 1 [(''y'', VInt 7)] (snd (alloc [] store0))) \<and>
   locals (Frame code_inner 0 2 4) \<noteq> locals (push [VCode code_inner, VStr ''inner''] frame0) \<and>
   cells (set_cell (locals (Frame code_inner 0 2 4)) [(''z'', VInt 0)]
            (snd (alloc [(''y'', VInt 7)]
                   (set_cell 1 [(''y'', VInt 7)] (snd (alloc [] store0))))))
         (locals (push [VCode code_inner, VStr ''inner''] frame0)) =
     [(''y'', VInt 7)]"
  using locals_copied_at_invocation
    [where n = 0 and ?h0.0 = store0 and ?fr0.0 = "push [VCode code_inner, VStr ''inner''] frame0"
       and ?h1.0 = "snd (alloc [] store0)"
       and ?fr1.0 = "push [VFunc 3 ''inner'' (VCode code_inner) [] 1 2 0] frame0"
       and a = 3 and q = "''inner''" and cd = "VCode code_inner" and ds = "[]"
       and l = 1 and g = 2 and b = 0
       and h = "set_cell 1 [(''y'', VInt 7)] (snd (alloc [] store0))"
       and args = "[]" and kwargs = "[]" and fr = "Frame code_inner 0 2 4"
       and h' = "snd (alloc [(''y'', VInt 7)]
                   (set_cell 1 [(''y'', VInt 7)] (snd (alloc [] store0))))"]
  by (simp add: make_function_op_def function_frame_def parsed_args_def named_args_def
      f_locals_def pop_def popn_def push_def frame0_def Frame_def store0_def alloc_def
      set_cell_def code_inner_def has_varargs_def has_varkwargs_def CO_VARARGS_def
      CO_VARKEYWORDS_def dict_zip_def dict_update_def defaults_names_def posonly_names_def
      pos_or_kw_names_def slice_def slice_bound_def Let_def)

section \<open>The execution loop and the value a handler returns\<close>

lemma raise_varargs_frame:
  assumes "raise_varargs_op argc fr = Inr (outcome, fr')"
  shows "fr' = fr\<lparr>data_stack := data_stack fr', last_exception := last_exception fr'\<rparr>"
  using assms
  by (auto simp: raise_varargs_op_def raise_operands_def pop_def Let_def
      split: if_splits sum.splits list.splits)

text \<open>
  A run goes past a raise: the module returns what the instructions after the raise
  compute.
\<close>

lemma run_continues_after_raise:
  "result_value (vm_run 10 module_raise 0 store0) = Some (Inr (VInt 7))"
  by code_simp

text \<open>
  C9: whatever value a handler returns, the loop goes on from the store and the Frame the
  handler leaves, through \<open>advance\<close> alone. In particular, when the instruction at
  the pointer is a raise whose handler returns an outcome (\<open>reraise\<close> or
  \<open>exception\<close>), with no jump pending as at every start of an iteration, the loop
  continues at the next instruction, two bytes on; the handler leaves \<open>return_value\<close>
  as it was; and when the raise is the last instruction the run ends normally and returns
  the \<open>return_value\<close> slot, the outcome being lost.
\<close>

theorem handler_result_discarded:
  assumes pc: "counter fr < bytecode_len fr"
  shows "(dispatch (\<lambda>h' fr'. exec n h' (start fr')) (co_instrs (code fr) ! (counter fr div 2)) h fr
            = Some (Inr (ret, h1, fr1)) \<longrightarrow>
          exec (Suc n) h fr = exec n h1 (advance fr1)) \<and>
         (co_instrs (code fr) ! (counter fr div 2) = RAISE_VARARGS argc \<and> jump fr = None \<and>
          raise_varargs_op argc fr = Inr (outcome, fr') \<longrightarrow>
            exec (Suc n) h fr = exec n h (fr'\<lparr>counter := counter fr + 2\<rparr>) \<and>
            return_value fr' = return_value fr \<and>
            (bytecode_len fr \<le> counter fr + 2 \<longrightarrow>
               exec (Suc (Suc n)) h fr = Some (Inr (return_value fr, h))))"
proof (intro conjI impI)
  assume "dispatch (\<lambda>h' fr'. exec n h' (start fr')) (co_instrs (code fr) ! (counter fr div 2)) h fr
            = Some (Inr (ret, h1, fr1))"
  then show "exec (Suc n) h fr = exec n h1 (advance fr1)"
    using pc by simp
next
  assume a: "co_instrs (code fr) ! (counter fr div 2) = RAISE_VARARGS argc \<and> jump fr = None \<and>
          raise_varargs_op argc fr = Inr (outcome, fr')"
  from a raise_varargs_frame [of argc fr outcome fr']
  have same: "counter fr' = counter fr" "jump fr' = None" "return_value fr' = return_value fr"
    "bytecode_len fr' = bytecode_len fr"
    by (metis frame.select_convs frame.surjective frame.update_convs)+
  then have adv: "advance fr' = fr'\<lparr>counter := counter fr + 2\<rparr>"
    by (simp add: advance_def)
  from a pc have step: "exec (Suc n) h fr = exec n h (advance fr')"
    by simp
  show "exec (Suc n) h fr = exec n h (fr'\<lparr>counter := counter fr + 2\<rparr>)"
    using step adv by simp
  show "return_value fr' = return_value fr" by (rule same)
  show "exec (Suc (Suc n)) h fr = Some (Inr (return_value fr, h))"
    if "bytecode_len fr \<le> counter fr + 2"
  proof -
    from a pc have "exec (Suc (Suc n)) h fr = exec (Suc n) h (advance fr')"
      by simp
    also have "\<dots> = Some (Inr (return_value fr, h))"
      using that same by (simp add: adv)
    finally show ?thesis .
  qed
qed


theorem handler_result_discarded_witness:
  "exec 2 store0
     ((push [VExcType ''ValueError'']
         (start (Frame (Code [LOAD_CONST (VExcType ''ValueError''), RAISE_VARARGS 1] [] 0 0 0 64)
                   0 2 1)))\<lparr>counter := 2\<rparr>) =
   Some (Inr (VNone, store0))"
  using handler_result_discarded
    [where fr = "(push [VExcType ''ValueError'']
         (start (Frame (Code [LOAD_CONST (VExcType ''ValueError''), RAISE_VARARGS 1] [] 0 0 0 64)
                   0 2 1)))\<lparr>counter := 2\<rparr>"
       and n = 0 and h = store0 and argc = 1 and outcome = "VStr ''exception''"
       and ret = "VStr ''exception''" and ?h1.0 = store0
       and ?fr1.0 = "(start (Frame (Code [LOAD_CONST (VExcType ''ValueError''), RAISE_VARARGS 1] [] 0 0 0 64)
                   0 2 1))\<lparr>counter := 2, last_exception := [VExcType ''ValueError'', VNone, VNone]\<rparr>"
       and fr' = "(start (Frame (Code [LOAD_CONST (VExcType ''ValueError''), RAISE_VARARGS 1] [] 0 0 0 64)
                   0 2 1))\<lparr>counter := 2, last_exception := [VExcType ''ValueError'', VNone, VNone]\<rparr>"]
  by (simp add: raise_varargs_op_def raise_operands_def pop_def push_def start_def Frame_def
      Let_def numeral_2_eq_2)

section \<open>The namespace of the top-level Frame\<close>

lemma dispatch_keeps_environment:
  assumes "dispatch runner i h fr = Some (Inr (ret, h', fr'))"
  shows "globals fr' = globals fr \<and> locals fr' = locals fr \<and> builtins fr' = builtins fr"
proof (cases i)
  case (RAISE_VARARGS n)
  then show ?thesis
    using assms
    by (auto simp: raise_varargs_op_def raise_operands_def pop_def Let_def
        split: if_splits sum.splits list.splits)
next
  case (MAKE_FUNCTION n)
  then show ?thesis
    using assms
    by (auto simp: on_state_def make_function_op_def pop_def popn_def push_def alloc_def Let_def
        split: if_splits sum.splits val.splits prod.splits)
next
  case (CALL_FUNCTION n)
  then show ?thesis
    using assms
    by (auto simp: on_state_def call_function_op_def pop_def popn_def push_def Let_def
        split: if_splits sum.splits option.splits prod.splits)
next
  case (BUILD_MAP n)
  then show ?thesis
    using assms
    by (auto simp: on_frame_def build_map_op_def popn_def push_def Let_def
        split: if_splits sum.splits)
qed (use assms in \<open>auto simp: on_frame_def on_state_def nop_op_def load_const_op_def load_name_op_def
      load_global_op_def store_name_op_def store_global_op_def store_fast_op_def
      delete_name_op_def delete_fast_op_def pop_top_op_def dup_top_op_def rot_two_op_def
      return_value_op_def pop_jump_if_true_op_def pop_jump_if_false_op_def
      jump_if_true_or_pop_op_def jump_if_false_or_pop_op_def jump_forward_op_def
      jump_absolute_op_def build_tuple_op_def build_list_op_def
      pop_def top_def popn_def push_def set_cell_def dict_delitem_def Let_def
      split: if_splits sum.splits option.splits\<close>)


text \<open>
  C10: the Frame that \<open>VirtualMachine.run\<close> builds has one dictionary as globals and
  as locals, and no handler changes which dictionaries a Frame uses. On a Frame whose
  globals are its locals, storing or deleting through the globals is storing or deleting
  through the locals; a name bound by \<open>store_name_op\<close> (or, what is the same there,
  by \<open>store_global_op\<close>) is what \<open>load_global_op\<close> and \<open>load_name_op\<close> then
  push, and \<open>delete_name_op\<close> then deletes it, from both views.
\<close>

theorem top_level_globals_are_locals:
  "globals (fst (top_level_frame code_obj b h0)) = locals (fst (top_level_frame code_obj b h0)) \<and>
   (dispatch runner i h fr = Some (Inr (ret, h1, fr1)) \<longrightarrow>
      globals fr1 = globals fr \<and> locals fr1 = locals fr) \<and>
   (globals fr = locals fr \<longrightarrow>
      store_global_op x h fr = store_name_op x h fr \<and>
      delete_name_op x h fr = delete_fast_op x h fr \<and>
      (data_stack fr = st @ [v] \<longrightarrow>
         (\<exists>h'. store_name_op x h fr = Inr (h', fr\<lparr>data_stack := st\<rparr>) \<and>
               load_global_op x h' (fr\<lparr>data_stack := st\<rparr>) = Inr (fr\<lparr>data_stack := st @ [v]\<rparr>) \<and>
               load_name_op x h' (fr\<lparr>data_stack := st\<rparr>) = Inr (fr\<lparr>data_stack := st @ [v]\<rparr>) \<and>
               (\<exists>h''. delete_name_op x h' (fr\<lparr>data_stack := st\<rparr>) = Inr (h'', fr\<lparr>data_stack := st\<rparr>) \<and>
                      map_of (cells h'' (locals fr)) x = None \<and>
                      map_of (cells h'' (globals fr)) x = None))))"
proof (intro conjI impI)
  show "globals (fst (top_level_frame code_obj b h0)) = locals (fst (top_level_frame code_obj b h0))"
    by (simp add: top_level_frame_def alloc_def Frame_def)
next
  assume "dispatch runner i h fr = Some (Inr (ret, h1, fr1))"
  from dispatch_keeps_environment [OF this]
  show "globals fr1 = globals fr" "locals fr1 = locals fr" by simp_all
next
  assume "globals fr = locals fr"
  then show "store_global_op x h fr = store_name_op x h fr"
    by (simp add: store_global_op_def store_name_op_def pop_def)
next
  assume "globals fr = locals fr"
  then show "delete_name_op x h fr = delete_fast_op x h fr"
    by (simp add: delete_name_op_def delete_fast_op_def split: sum.splits)
next
  assume g: "globals fr = locals fr" and st: "data_stack fr = st @ [v]"
  let ?d = "AList.update x v (cells h (locals fr))"
  let ?h' = "set_cell (locals fr) ?d h"
  let ?fr' = "fr\<lparr>data_stack := st\<rparr>"
  have s: "store_name_op x h fr = Inr (?h', ?fr')"
    using st by (simp add: store_name_op_def pop_def)
  have c: "cells ?h' (locals fr) = ?d"
    by (simp add: set_cell_def)
  have l: "load_global_op x ?h' ?fr' = Inr (fr\<lparr>data_stack := st @ [v]\<rparr>)"
    using g c by (simp add: load_global_op_def push_def update_conv')
  have l': "load_name_op x ?h' ?fr' = Inr (fr\<lparr>data_stack := st @ [v]\<rparr>)"
    using c by (simp add: load_name_op_def push_def update_conv')
  have k: "x \<in> fst ` set ?d"
    by (simp add: dom_update)
  let ?h'' = "set_cell (locals fr) (AList.delete x ?d) ?h'"
  have d: "delete_name_op x ?h' ?fr' = Inr (?h'', ?fr')"
    using g c k by (simp add: delete_name_op_def dict_delitem_def)
  have n: "map_of (cells ?h'' (locals fr)) x = None"
    by (simp add: set_cell_def delete_conv')
  show "\<exists>h'. store_name_op x h fr = Inr (h', ?fr') \<and>
             load_global_op x h' ?fr' = Inr (fr\<lparr>data_stack := st @ [v]\<rparr>) \<and>
             load_name_op x h' ?fr' = Inr (fr\<lparr>data_stack := st @ [v]\<rparr>) \<and>
             (\<exists>h''. delete_name_op x h' ?fr' = Inr (h'', ?fr') \<and>
                    map_of (cells h'' (locals fr)) x = None \<and>
                    map_of (cells h'' (globals fr)) x = None)"
    using s l l' d n g by auto
qed


theorem top_level_globals_are_locals_witness:
  "(\<exists>h'. store_name_op ''x'' (snd (top_level_frame code_one_param 0 store0))
            (push [VInt 5] (fst (top_level_frame code_one_param 0 store0))) =
          Inr (h', fst (top_level_frame code_one_param 0 store0)) \<and>
        load_global_op ''x'' h' (fst (top_level_frame code_one_param 0 store0)) =
          Inr (push [VInt 5] (fst (top_level_frame code_one_param 0 store0))) \<and>
        load_name_op ''x'' h' (fst (top_level_frame code_one_param 0 store0)) =
          Inr (push [VInt 5] (fst (top_level_frame code_one_param 0 store0))) \<and>
        (\<exists>h''. delete_name_op ''x'' h' (fst (top_level_frame code_one_param 0 store0)) =
                 Inr (h'', fst (top_level_frame code_one_param 0 store0)) \<and>
               map_of (cells h'' 3) ''x'' = None))"
  using top_level_globals_are_locals
    [where fr = "push [VInt 5] (fst (top_level_frame code_one_param 0 store0))"
       and h = "snd (top_level_frame code_one_param 0 store0)"
       and st = "[]" and v = "VInt 5" and x = "''x''"
       and code_obj = code_one_param and b = 0 and ?h0.0 = store0
       and i = NOP and runner = "\<lambda>h fr. None" and ret = VNone
       and ?h1.0 = "snd (top_level_frame code_one_param 0 store0)"
       and ?fr1.0 = "push [VInt 5] (fst (top_level_frame code_one_param 0 store0))"]
  by (simp add: top_level_frame_def alloc_def Frame_def push_def store0_def on_frame_def
      nop_op_def)

end
